theory Spec2Isabelle
  imports Main "HOL-Library.Sublist"
begin

section \<open>JavaScript values and the operations the handlers use on them\<close>

text \<open>
  The two edge functions receive JSON, index objects, test truthiness with \<open>||\<close> and
  interpolate values into template literals. Every one of these steps can throw; a throw
  is the \<open>Inl\<close> branch of a sum.
\<close>

datatype error = SyntaxError | TypeError | OpenAIError | APIError | PlainError

text \<open>
  A number is carried as the text ECMAScript's Number-to-String conversion gives for it
  (\<open>''3000''\<close>, \<open>''0''\<close>, \<open>''1.5''\<close>). \<open>JNative\<close> is a built-in function or object reached
  through the prototype chain, carried as the text its conversion to a string gives.
\<close>

datatype jsval =
    JUndefined
  | JNull
  | JBool bool
  | JNum string
  | JStr string
  | JArr "jsval list"
  | JObj "(string \<times> jsval) list"
  | JNative string

definition ebind :: "error + 'a \<Rightarrow> ('a \<Rightarrow> error + 'b) \<Rightarrow> error + 'b" where
  "ebind m f = (case m of Inl e \<Rightarrow> Inl e | Inr v \<Rightarrow> f v)"

fun truthy :: "jsval \<Rightarrow> bool" where
  "truthy JUndefined = False"
| "truthy JNull = False"
| "truthy (JBool b) = b"
| "truthy (JNum n) = (n \<noteq> ''0'' \<and> n \<noteq> ''NaN'')"
| "truthy (JStr s) = (s \<noteq> [])"
| "truthy (JArr xs) = True"
| "truthy (JObj kv) = True"
| "truthy (JNative s) = True"

text \<open>\<open>a || b\<close>\<close>

definition js_or :: "jsval \<Rightarrow> jsval \<Rightarrow> jsval" where
  "js_or a b = (if truthy a then a else b)"

text \<open>
  Conversion to a string, as a template literal applies it. An array joins its elements
  with commas, \<open>null\<close> and \<open>undefined\<close> elements giving the empty string. A plain object gives
  \<open>[object Object]\<close> through the inherited \<open>toString\<close>; an object parsed from JSON with
  an own key \<open>toString\<close> hides that method behind a value that cannot be called, the
  inherited \<open>valueOf\<close> returns the object itself, and the conversion throws.
\<close>

fun ToString :: "jsval \<Rightarrow> error + string"
  and ArrayJoin :: "jsval list \<Rightarrow> error + string" where
  "ToString JUndefined = Inr ''undefined''"
| "ToString JNull = Inr ''null''"
| "ToString (JBool b) = Inr (if b then ''true'' else ''false'')"
| "ToString (JNum n) = Inr n"
| "ToString (JStr s) = Inr s"
| "ToString (JArr xs) = ArrayJoin xs"
| "ToString (JObj kv) =
     (if map_of kv ''toString'' = None then Inr ''[object Object]'' else Inl TypeError)"
| "ToString (JNative s) = Inr s"
| "ArrayJoin [] = Inr []"
| "ArrayJoin (x # xs) =
     (case (if x = JUndefined \<or> x = JNull then Inr [] else ToString x) of
        Inl e \<Rightarrow> Inl e
      | Inr s \<Rightarrow>
          (if xs = [] then Inr s
           else (case ArrayJoin xs of Inl e \<Rightarrow> Inl e | Inr t \<Rightarrow> Inr (s @ '','' @ t))))"

text \<open>
  Property access \<open>v.k\<close>, and the destructuring \<open>const { k } = v\<close>: a \<open>TypeError\<close> on
  \<open>null\<close> and \<open>undefined\<close>. It is used with the field names of the request bodies and of
  the proposal summary only, none of which a built-in prototype defines, so a value
  without the own key gives \<open>undefined\<close>.
\<close>

definition get_prop :: "jsval \<Rightarrow> string \<Rightarrow> error + jsval" where
  "get_prop v k =
     (case v of
        JUndefined \<Rightarrow> Inl TypeError
      | JNull \<Rightarrow> Inl TypeError
      | JObj kv \<Rightarrow> Inr (case map_of kv k of Some x \<Rightarrow> x | None \<Rightarrow> JUndefined)
      | _ \<Rightarrow> Inr JUndefined)"

text \<open>
  \<open>String.prototype.toLowerCase\<close> on ASCII text (the labels of the reason tables are
  ASCII).
\<close>

definition lower_char :: "char \<Rightarrow> char" where
  "lower_char c =
     (case map_of (zip ''ABCDEFGHIJKLMNOPQRSTUVWXYZ'' ''abcdefghijklmnopqrstuvwxyz'') c of
        Some d \<Rightarrow> d
      | None \<Rightarrow> c)"

definition toLowerCase :: "string \<Rightarrow> string" where
  "toLowerCase s = map lower_char s"

text \<open>
  \<open>v?.toLowerCase()\<close>: the optional chain stops on \<open>null\<close> and \<open>undefined\<close>; a string is
  lowered; any other value has no such method, and calling \<open>undefined\<close> throws.
\<close>

definition opt_toLowerCase :: "jsval \<Rightarrow> error + jsval" where
  "opt_toLowerCase v =
     (case v of
        JUndefined \<Rightarrow> Inr JUndefined
      | JNull \<Rightarrow> Inr JUndefined
      | JStr s \<Rightarrow> Inr (JStr (toLowerCase s))
      | _ \<Rightarrow> Inl TypeError)"

text \<open>
  A template literal: its parts are evaluated and converted left to right, and the first
  throw ends the evaluation. \<open>lit\<close> is fixed text, \<open>sub\<close> a substitution \<open>${e}\<close>.
\<close>

fun template :: "(error + string) list \<Rightarrow> error + string" where
  "template [] = Inr []"
| "template (p # ps) =
     (case p of
        Inl e \<Rightarrow> Inl e
      | Inr s \<Rightarrow> (case template ps of Inl e \<Rightarrow> Inl e | Inr t \<Rightarrow> Inr (s @ t)))"

definition lit :: "string \<Rightarrow> error + string" where
  "lit s = Inr s"

definition sub :: "error + jsval \<Rightarrow> error + string" where
  "sub v = ebind v ToString"

text \<open>\<open>${e || 'd'}\<close>\<close>

definition sub_or :: "error + jsval \<Rightarrow> string \<Rightarrow> error + string" where
  "sub_or v d = sub (ebind v (\<lambda>x. Inr (js_or x (JStr d))))"

section \<open>The decline-reason tables\<close>

text \<open>\<open>reasonDescriptions\<close> of the generate-decline function.\<close>

definition reasonDescriptions :: "(string \<times> string) list" where
  "reasonDescriptions =
     [(''project_capability'', ''Project Capability Problems''),
      (''general_operating'', ''General Operating Support''),
      (''higher_merit'', ''Other Projects Higher Merit''),
      (''outside_guidelines'', ''Outside Approved Guidelines''),
      (''incomplete_proposal'', ''Incomplete Proposal''),
      (''geographic_scope'', ''Geographic Scope Limitation''),
      (''strategic_mismatch'', ''Strategic Priority Mismatch''),
      (''sustainability'', ''Sustainability Concerns'')]"

text \<open>\<open>DECLINE_REASONS\<close> of the decline-input component: the options of the selection list.\<close>

record ReasonCode =
  "value" :: string
  label :: string

definition DECLINE_REASONS :: "ReasonCode list" where
  "DECLINE_REASONS =
     [\<lparr>value = ''project_capability'', label = ''Project Capability Problems''\<rparr>,
      \<lparr>value = ''general_operating'', label = ''General Operating Support''\<rparr>,
      \<lparr>value = ''higher_merit'', label = ''Other Projects Higher Merit''\<rparr>,
      \<lparr>value = ''outside_guidelines'', label = ''Outside Approved Guidelines''\<rparr>,
      \<lparr>value = ''incomplete_proposal'', label = ''Incomplete Proposal''\<rparr>,
      \<lparr>value = ''geographic_scope'', label = ''Geographic Scope Limitation''\<rparr>,
      \<lparr>value = ''strategic_mismatch'', label = ''Strategic Priority Mismatch''\<rparr>,
      \<lparr>value = ''sustainability'', label = ''Sustainability Concerns''\<rparr>]"

text \<open>\<open>reasonLabels\<close> of \<open>generateNYCTFormattedMemo\<close> in the application component.\<close>

definition reasonLabels :: "(string \<times> string) list" where
  "reasonLabels =
     [(''project_capability'', ''Project Capability Problems''),
      (''general_operating'', ''General Operating Support''),
      (''higher_merit'', ''Other Projects Higher Merit''),
      (''outside_guidelines'', ''Outside Approved Guidelines''),
      (''incomplete_proposal'', ''Incomplete Proposal''),
      (''geographic_scope'', ''Geographic Scope Limitation''),
      (''strategic_mismatch'', ''Strategic Priority Mismatch''),
      (''sustainability'', ''Sustainability Concerns'')]"

text \<open>
  Both tables are object literals, so a lookup that finds no own key goes on to
  \<open>Object.prototype\<close>. Its properties are built-in functions, and \<open>__proto__\<close> gives the
  prototype object itself. \<open>Object_prototype\<close> is the standard object, as the browser of
  the application component has it. Deno deletes \<open>__proto__\<close> from it at start-up, so the
  edge functions see \<open>Deno_Object_prototype\<close>.
\<close>

definition native_function :: "string \<Rightarrow> jsval" where
  "native_function name = JNative (''function '' @ name @ ''() { [native code] }'')"

definition Object_prototype :: "(string \<times> jsval) list" where
  "Object_prototype =
     [(''constructor'', native_function ''Object''),
      (''__defineGetter__'', native_function ''__defineGetter__''),
      (''__defineSetter__'', native_function ''__defineSetter__''),
      (''hasOwnProperty'', native_function ''hasOwnProperty''),
      (''__lookupGetter__'', native_function ''__lookupGetter__''),
      (''__lookupSetter__'', native_function ''__lookupSetter__''),
      (''isPrototypeOf'', native_function ''isPrototypeOf''),
      (''propertyIsEnumerable'', native_function ''propertyIsEnumerable''),
      (''toString'', native_function ''toString''),
      (''valueOf'', native_function ''valueOf''),
      (''__proto__'', JNative ''[object Object]''),
      (''toLocaleString'', native_function ''toLocaleString'')]"

definition Deno_Object_prototype :: "(string \<times> jsval) list" where
  "Deno_Object_prototype = filter (\<lambda>p. fst p \<noteq> ''__proto__'') Object_prototype"

text \<open>
  \<open>table[key]\<close>, for a table whose prototype is \<open>proto\<close>: the key is converted to a string
  first.
\<close>

definition table_get ::
  "(string \<times> jsval) list \<Rightarrow> (string \<times> string) list \<Rightarrow> jsval \<Rightarrow> error + jsval" where
  "table_get proto tbl key =
     ebind (ToString key) (\<lambda>k.
       Inr (case map_of tbl k of
              Some l \<Rightarrow> JStr l
            | None \<Rightarrow> (case map_of proto k of Some f \<Rightarrow> f | None \<Rightarrow> JUndefined)))"

text \<open>\<open>${table[code]?.toLowerCase() || generic}\<close>\<close>

definition decline_phrase ::
  "(string \<times> jsval) list \<Rightarrow> (string \<times> string) list \<Rightarrow> jsval \<Rightarrow> string \<Rightarrow> error + string" where
  "decline_phrase proto tbl code generic =
     sub_or (ebind (table_get proto tbl code) opt_toLowerCase) generic"

text \<open>\<open>${table[code] || 'Decline Reason'}\<close>\<close>

definition rationale_label ::
  "(string \<times> jsval) list \<Rightarrow> (string \<times> string) list \<Rightarrow> jsval \<Rightarrow> error + string" where
  "rationale_label proto tbl code = sub_or (table_get proto tbl code) ''Decline Reason''"

section \<open>Requests, responses and the runtime\<close>

text \<open>
  What a handler gets from outside is a parameter: the secret read by
  \<open>Deno.env.get('OPENAI_API_KEY')\<close>, \<open>JSON.parse\<close>, and the answer of the model.
  \<open>create\<close> stands for \<open>openai.chat.completions.create(...)\<close> followed by
  \<open>.choices[0].message.content\<close>: the content of the first choice, or the error thrown on
  the way to it.
\<close>

datatype prompt =
    MemoPrompt string string string jsval
  | LetterPrompt string
  | ExtractionPrompt string

record runtime =
  OPENAI_API_KEY :: "string option"
  JSON_parse :: "string \<Rightarrow> error + jsval"
  create :: "prompt \<Rightarrow> error + jsval"

text \<open>
  A request is its method and the text of its body. \<open>rereadable\<close> says whether a second
  read of the body gives what the first read gave. The body of a Fetch \<open>Request\<close> is a
  stream that is consumed by the first read, so that for a request with a body the field
  is \<open>False\<close>. A request without a body is the empty text with the field \<open>True\<close>: the
  runtime never marks it as used, and every read of it rejects with the same
  \<open>SyntaxError\<close>.
\<close>

record request =
  req_method :: string
  body :: string
  rereadable :: bool

datatype http_body = Text string | Json jsval

record response =
  status :: nat
  headers :: "(string \<times> string) list"
  content :: http_body

definition corsHeaders :: "(string \<times> string) list" where
  "corsHeaders =
     [(''Access-Control-Allow-Origin'', ''*''),
      (''Access-Control-Allow-Headers'', ''authorization, x-client-info, apikey, content-type'')]"

text \<open>\<open>new Response('ok', { headers: corsHeaders })\<close>; the status defaults to 200.\<close>

definition preflight_response :: response where
  "preflight_response = \<lparr>status = 200, headers = corsHeaders, content = Text ''ok''\<rparr>"

text \<open>
  \<open>new Response(JSON.stringify(v), { headers: { ...corsHeaders, 'Content-Type':
  'application/json' }, status: 200 })\<close>. The body is kept as the value that is
  serialised.
\<close>

definition json_response :: "jsval \<Rightarrow> response" where
  "json_response v =
     \<lparr>status = 200,
      headers = corsHeaders @ [(''Content-Type'', ''application/json'')],
      content = Json v\<rparr>"

text \<open>
  \<open>await req.json()\<close>. The flag \<open>used\<close> is the request's \<open>bodyUsed\<close>: it is passed in, and
  is \<open>True\<close> after the call whatever the outcome of the parse. A used body that cannot be
  read again rejects with a \<open>TypeError\<close>; for a request that is \<open>rereadable\<close> the flag has no
  effect.
\<close>

definition req_json :: "runtime \<Rightarrow> request \<Rightarrow> bool \<Rightarrow> (error + jsval) \<times> bool" where
  "req_json rt req used =
     (if used \<and> \<not> rereadable req then (Inl TypeError, True)
      else (JSON_parse rt (body req), True))"

text \<open>
  \<open>new OpenAI({ apiKey })\<close>: the constructor of the client library throws when the key
  is \<open>undefined\<close>. With no credential the \<open>try\<close> block of either handler is left
  here, before any call of the model.
\<close>

definition new_OpenAI :: "string option \<Rightarrow> error + string" where
  "new_OpenAI key = (case key of None \<Rightarrow> Inl OpenAIError | Some k \<Rightarrow> Inr k)"

section \<open>The generate-decline function\<close>

text \<open>
  The prompts are kept as the values interpolated into them, in the order of their
  evaluation; the fixed wording around them is left out. \<open>JSON.stringify\<close> of the
  summary, the last substitution of the memo prompt, does not throw on a value parsed
  from JSON.
\<close>

definition memoPrompt :: "jsval \<Rightarrow> jsval \<Rightarrow> jsval \<Rightarrow> error + prompt" where
  "memoPrompt reason_code specific_reasons proposal_summary =
     ebind (decline_phrase Deno_Object_prototype reasonDescriptions reason_code ''the specified reason'') (\<lambda>phrase.
     ebind (sub (Inr specific_reasons)) (\<lambda>reasons.
     ebind (rationale_label Deno_Object_prototype reasonDescriptions reason_code) (\<lambda>rationale.
     Inr (MemoPrompt phrase reasons rationale proposal_summary))))"

definition letterPrompt :: "jsval \<Rightarrow> error + prompt" where
  "letterPrompt proposal_summary =
     ebind (sub_or (get_prop proposal_summary ''organizationName'') ''the organization'')
       (\<lambda>org. Inr (LetterPrompt org))"

definition fallbackMemo :: "jsval \<Rightarrow> jsval \<Rightarrow> jsval \<Rightarrow> error + string" where
  "fallbackMemo proposal_summary reason_code specific_reasons =
     template
       [sub_or (get_prop proposal_summary ''organizationName'') ''The organization'',
        lit '' requests '',
        sub_or (get_prop proposal_summary ''grantAmount'') ''funding'',
        lit '' to support '',
        sub_or (get_prop proposal_summary ''projectDescription'') ''their project'',
        lit ''.\<newline>\<newline>I recommend this request be declined for '',
        decline_phrase Deno_Object_prototype reasonDescriptions reason_code ''the specified reason'',
        lit ''. '',
        sub (Inr specific_reasons),
        lit ''\<newline>\<newline>Rationale: '',
        rationale_label Deno_Object_prototype reasonDescriptions reason_code]"

definition fallbackLetter :: "jsval \<Rightarrow> error + string" where
  "fallbackLetter proposal_summary =
     template
       [lit ''Dear '',
        sub_or (get_prop proposal_summary ''organizationName'') ''Applicant'',
        lit '',\<newline>\<newline>Thank you for your proposal submission to The New York Community Trust. We appreciate your organization's dedication to serving the community.\<newline>\<newline>After careful review, we have determined that we will not be able to provide funding for this request at this time. While we recognize your important work, this proposal does not align with our current funding priorities.\<newline>\<newline>We encourage you to review our updated guidelines and consider applying for future opportunities.\<newline>\<newline>Best regards,\<newline>NYCT Program Team'']"

text \<open>The body of the \<open>try\<close> block, from the first \<open>await req.json()\<close> to the response.\<close>

definition generate_try :: "runtime \<Rightarrow> request \<Rightarrow> bool \<Rightarrow> (error + response) \<times> bool" where
  "generate_try rt req used =
     (let (parsed, used') = req_json rt req used in
      (ebind parsed (\<lambda>b.
       ebind (get_prop b ''reason_code'') (\<lambda>reason_code.
       ebind (get_prop b ''specific_reasons'') (\<lambda>specific_reasons.
       ebind (get_prop b ''proposal_summary'') (\<lambda>proposal_summary.
       ebind (new_OpenAI (OPENAI_API_KEY rt)) (\<lambda>openai.
       ebind (memoPrompt reason_code specific_reasons proposal_summary) (\<lambda>mp.
       ebind (create rt mp) (\<lambda>internalMemo.
       ebind (letterPrompt proposal_summary) (\<lambda>lp.
       ebind (create rt lp) (\<lambda>externalLetter.
       Inr (json_response (JObj
         [(''internal_rationale'', internalMemo),
          (''external_reply'', externalLetter),
          (''generation_time_ms'', JNum ''3000'')]))))))))))),
       used'))"

text \<open>
  The templates of the \<open>catch\<close> block, as a function of the parsed body, and the response
  built from them.
\<close>

definition fallback_documents :: "jsval \<Rightarrow> error + response" where
  "fallback_documents b =
     ebind (get_prop b ''proposal_summary'') (\<lambda>proposal_summary.
     ebind (get_prop b ''reason_code'') (\<lambda>reason_code.
     ebind (get_prop b ''specific_reasons'') (\<lambda>specific_reasons.
     ebind (fallbackMemo proposal_summary reason_code specific_reasons) (\<lambda>memo.
     ebind (fallbackLetter proposal_summary) (\<lambda>letter.
     Inr (json_response (JObj
       [(''internal_rationale'', JStr memo),
        (''external_reply'', JStr letter),
        (''generation_time_ms'', JNum ''1000'')])))))))"

text \<open>The \<open>catch\<close> block: it reads the body of the same request again.\<close>

definition generate_catch :: "runtime \<Rightarrow> request \<Rightarrow> bool \<Rightarrow> (error + response) \<times> bool" where
  "generate_catch rt req used =
     (let (parsed, used') = req_json rt req used in
      (ebind parsed fallback_documents, used'))"

text \<open>
  The handler. \<open>Inl e\<close> is a handler whose promise rejects with \<open>e\<close>: the code has built no
  response.
\<close>

definition generate_decline :: "runtime \<Rightarrow> request \<Rightarrow> error + response" where
  "generate_decline rt req =
     (if req_method req = ''OPTIONS'' then Inr preflight_response
      else (case generate_try rt req False of
              (Inr resp, used) \<Rightarrow> Inr resp
            | (Inl e, used) \<Rightarrow> fst (generate_catch rt req used)))"

section \<open>The analyze-proposal function\<close>

text \<open>\<open>text_content.substring(0, 8000)\<close>: only a string has the method.\<close>

definition substring_0 :: "jsval \<Rightarrow> nat \<Rightarrow> error + string" where
  "substring_0 v n = (case v of JStr s \<Rightarrow> Inr (take n s) | _ \<Rightarrow> Inl TypeError)"

definition extractionPrompt :: "jsval \<Rightarrow> error + prompt" where
  "extractionPrompt text_content =
     ebind (substring_0 text_content 8000) (\<lambda>t. Inr (ExtractionPrompt t))"

definition analyze_try :: "runtime \<Rightarrow> request \<Rightarrow> bool \<Rightarrow> (error + response) \<times> bool" where
  "analyze_try rt req used =
     (let (parsed, used') = req_json rt req used in
      (ebind parsed (\<lambda>b.
       ebind (get_prop b ''text_content'') (\<lambda>text_content.
       ebind (get_prop b ''filename'') (\<lambda>filename.
       ebind (new_OpenAI (OPENAI_API_KEY rt)) (\<lambda>openai.
       ebind (extractionPrompt text_content) (\<lambda>p.
       ebind (create rt p) (\<lambda>reply.
       ebind (ebind (ToString reply) (JSON_parse rt)) (\<lambda>extractedData.
       Inr (json_response (JObj
         [(''summary'', extractedData),
          (''analysis_time_ms'', JNum ''2000'')]))))))))),
       used'))"

text \<open>The summary of the \<open>catch\<close> block: three constants.\<close>

definition analyze_fallback_summary :: jsval where
  "analyze_fallback_summary =
     JObj [(''organizationName'', JStr ''Organization''),
           (''projectDescription'', JStr ''Unable to fully analyze proposal''),
           (''grantAmount'', JStr ''Unknown'')]"

definition analyze_catch :: response where
  "analyze_catch =
     json_response (JObj
       [(''summary'', analyze_fallback_summary),
        (''analysis_time_ms'', JNum ''1000'')])"

definition analyze_proposal :: "runtime \<Rightarrow> request \<Rightarrow> error + response" where
  "analyze_proposal rt req =
     (if req_method req = ''OPTIONS'' then Inr preflight_response
      else (case analyze_try rt req False of
              (Inr resp, used) \<Rightarrow> Inr resp
            | (Inl e, used) \<Rightarrow> Inr analyze_catch))"

section \<open>The application component\<close>

text \<open>
  The state of \<open>App\<close>, as it is after a handler has run to its end. Two more fields record
  effects: \<open>fetched\<close> lists the endpoints requested with \<open>fetch\<close>, \<open>alerts\<close> the messages
  shown with \<open>alert\<close>. The field \<open>size\<close> of an uploaded file is \<open>file_size\<close> here.
\<close>

datatype stage = Upload | Analysis | Decline | Output

datatype endpoint = ANALYZE_URL | GENERATE_URL

record GeneratedOutput =
  internal_rationale :: string
  external_reply :: string
  generation_time_ms :: nat

record UploadedFile =
  proposal_hash :: string
  text_content :: string
  filename :: string
  file_size :: nat

record app_state =
  currentStage :: stage
  uploadedFile :: "UploadedFile option"
  proposalSummary :: "jsval option"
  generatedOutput :: "GeneratedOutput option"
  isAnalyzing :: bool
  isGenerating :: bool
  showMetrics :: bool
  fetched :: "endpoint list"
  alerts :: "string list"

subsection \<open>Extraction helpers\<close>

text \<open>\<open>s.split(c)\<close> for a separator of one character.\<close>

fun split_on :: "char \<Rightarrow> string \<Rightarrow> string list" where
  "split_on c [] = [[]]"
| "split_on c (x # xs) =
     (if x = c then [] # split_on c xs
      else (case split_on c xs of [] \<Rightarrow> [[x]] | y # ys \<Rightarrow> (x # y) # ys))"

text \<open>\<open>s.includes(pat)\<close>\<close>

fun includes_str :: "string \<Rightarrow> string \<Rightarrow> bool" where
  "includes_str [] pat = (pat = [])"
| "includes_str (x # xs) pat = (prefix pat (x # xs) \<or> includes_str xs pat)"

text \<open>\<open>s.trim()\<close>: white space and line terminators, among the characters of one byte.\<close>

definition is_space :: "char \<Rightarrow> bool" where
  "is_space c =
     (c \<in> set [CHR 0x09, CHR 0x0A, CHR 0x0B, CHR 0x0C, CHR 0x0D, CHR '' '', CHR 0xA0])"

definition trim :: "string \<Rightarrow> string" where
  "trim s = rev (dropWhile is_space (rev (dropWhile is_space s)))"

text \<open>
  \<open>extractOrganizationName\<close>: the first line that includes \<open>Organization:\<close> or
  \<open>Applicant:\<close> decides; the result is what stands between its first and its second
  colon, trimmed. \<open>None\<close> is \<open>undefined\<close>.
\<close>

fun first_org_line :: "string list \<Rightarrow> string option" where
  "first_org_line [] = None"
| "first_org_line (line # rest) =
     (if includes_str line ''Organization:'' \<or> includes_str line ''Applicant:''
      then (case split_on (CHR '':'') line of
              a # b # cs \<Rightarrow> Some (trim b)
            | _ \<Rightarrow> None)
      else first_org_line rest)"

definition extractOrganizationName :: "string \<Rightarrow> string option" where
  "extractOrganizationName text = first_org_line (split_on (CHR 0x0A) text)"

text \<open>
  \<open>extractGrantAmount\<close>: the leftmost match of \<open>/\$[\d,]+(?:\.\d{2})?/\<close>. A match starts at
  a dollar sign followed by a digit or a comma, takes the longest run of digits and commas,
  and then a point with two digits when they follow.
\<close>

definition is_digit :: "char \<Rightarrow> bool" where
  "is_digit c = (c \<in> set ''0123456789'')"

definition amount_char :: "char \<Rightarrow> bool" where
  "amount_char c = (is_digit c \<or> c = CHR '','')"

definition cents :: "string \<Rightarrow> string" where
  "cents rest =
     (case rest of
        p # d1 # d2 # cs \<Rightarrow>
          (if p = CHR ''.'' \<and> is_digit d1 \<and> is_digit d2 then [p, d1, d2] else [])
      | _ \<Rightarrow> [])"

fun extractGrantAmount :: "string \<Rightarrow> string option" where
  "extractGrantAmount [] = None"
| "extractGrantAmount (c # cs) =
     (if c = CHR ''$'' \<and> takeWhile amount_char cs \<noteq> []
      then Some (c # takeWhile amount_char cs @ cents (dropWhile amount_char cs))
      else extractGrantAmount cs)"

text \<open>\<open>e || 'd'\<close> for an optional string.\<close>

definition str_or :: "string option \<Rightarrow> string \<Rightarrow> string" where
  "str_or v d = (case v of None \<Rightarrow> d | Some s \<Rightarrow> (if s = [] then d else s))"

subsection \<open>The analysis step\<close>

text \<open>
  The outcome of \<open>fetch\<close>: a rejection, or a response with its \<open>ok\<close> flag and the outcome
  of \<open>response.json()\<close>.
\<close>

datatype fetch_outcome = FetchRejected | Fetched bool "error + jsval"

text \<open>The summary built when the response carries no summary.\<close>

definition fallbackSummary :: "UploadedFile \<Rightarrow> jsval" where
  "fallbackSummary file =
     JObj [(''organizationName'', JStr (str_or (extractOrganizationName (text_content file)) ''Organization'')),
           (''grantAmount'', JStr (str_or (extractGrantAmount (text_content file)) ''Amount not specified'')),
           (''projectDescription'', JStr (str_or (Some (take 200 (text_content file))) ''Project description'')),
           (''targetPopulation'', JStr ''Community members''),
           (''geographicScope'', JStr ''Local area'')]"

text \<open>The summary built in the \<open>catch\<close> block.\<close>

definition basicSummary :: "UploadedFile \<Rightarrow> jsval" where
  "basicSummary file =
     JObj [(''organizationName'', JStr (str_or (extractOrganizationName (text_content file)) ''Organization'')),
           (''grantAmount'', JStr (str_or (extractGrantAmount (text_content file)) ''Funding amount not specified'')),
           (''projectDescription'', JStr (str_or (Some (take 300 (text_content file))) ''See uploaded document'')),
           (''targetPopulation'', JStr ''See proposal details''),
           (''geographicScope'', JStr ''See proposal details'')]"

text \<open>
  What the \<open>try\<close> block of \<open>handleFileUploaded\<close> stores as the summary, or the error it
  throws.
\<close>

definition analysis_result :: "fetch_outcome \<Rightarrow> UploadedFile \<Rightarrow> error + jsval" where
  "analysis_result outcome file =
     (case outcome of
        FetchRejected \<Rightarrow> Inl TypeError
      | Fetched ok parsed \<Rightarrow>
          (if \<not> ok then Inl PlainError
           else ebind parsed (\<lambda>data.
                ebind (get_prop data ''summary'') (\<lambda>summary.
                Inr (if truthy summary then summary else fallbackSummary file)))))"

definition handleFileUploaded :: "fetch_outcome \<Rightarrow> app_state \<Rightarrow> UploadedFile option \<Rightarrow> app_state" where
  "handleFileUploaded outcome s file_opt =
     (case file_opt of
        None \<Rightarrow> s
      | Some file \<Rightarrow>
          (let s1 = s\<lparr>uploadedFile := Some file, currentStage := Analysis,
                      fetched := fetched s @ [ANALYZE_URL]\<rparr>
           in (case analysis_result outcome file of
                 Inr summary \<Rightarrow> s1\<lparr>proposalSummary := Some summary, isAnalyzing := False\<rparr>
               | Inl e \<Rightarrow>
                   s1\<lparr>proposalSummary := Some (basicSummary file), isAnalyzing := False,
                      alerts := alerts s @
                        [''Note: Using basic text extraction. For full AI analysis, ensure Supabase functions are configured.'']\<rparr>)))"

subsection \<open>The generate step\<close>





section \<open>The shape of a proposal summary\<close>

text \<open>
  \<open>ExtractedProposalData\<close> declares eleven optional string fields and the optional string
  list \<open>keyDeliverables\<close>. A value has that shape when it is an object in which each of
  the eleven is a string, \<open>null\<close> or absent, and \<open>keyDeliverables\<close> is a list of strings,
  \<open>null\<close> or absent.
\<close>

definition string_fields :: "string list" where
  "string_fields =
     [''organizationName'', ''organizationMission'', ''foundingYear'', ''grantAmount'',
      ''projectDescription'', ''targetPopulation'', ''geographicScope'', ''currentBudget'',
      ''projectBudget'', ''peopleServed'', ''timeline'']"

definition string_or_absent :: "jsval option \<Rightarrow> bool" where
  "string_or_absent f =
     (case f of None \<Rightarrow> True | Some JNull \<Rightarrow> True | Some (JStr s) \<Rightarrow> True | Some v \<Rightarrow> False)"

definition is_string :: "jsval \<Rightarrow> bool" where
  "is_string v = (case v of JStr s \<Rightarrow> True | _ \<Rightarrow> False)"

definition string_list_or_absent :: "jsval option \<Rightarrow> bool" where
  "string_list_or_absent f =
     (case f of
        None \<Rightarrow> True
      | Some JNull \<Rightarrow> True
      | Some (JArr xs) \<Rightarrow> list_all is_string xs
      | Some v \<Rightarrow> False)"

definition well_formed_summary :: "jsval \<Rightarrow> bool" where
  "well_formed_summary v =
     (case v of
        JObj kv \<Rightarrow>
          list_all (\<lambda>k. string_or_absent (map_of kv k)) string_fields
          \<and> string_list_or_absent (map_of kv ''keyDeliverables'')
      | _ \<Rightarrow> False)"

section \<open>Example inputs\<close>

text \<open>
  The decline request of the sustainability scenario, with the reason code left open, as
  a value and as the text of a request body.
\<close>

definition acme_summary :: jsval where
  "acme_summary =
     JObj [(''organizationName'', JStr ''Acme Org''),
           (''grantAmount'', JStr ''$20,000''),
           (''projectDescription'', JStr ''clothing drive'')]"

definition decline_request :: "string \<Rightarrow> jsval" where
  "decline_request code =
     JObj [(''reason_code'', JStr code),
           (''specific_reasons'', JStr ''No plan to sustain funding after grant period.''),
           (''proposal_summary'', acme_summary)]"

definition decline_text :: "string \<Rightarrow> string" where
  \<open>decline_text code =
     ''{"reason_code":"'' @ code @ ''","specific_reasons":"No plan to sustain funding after grant period.","proposal_summary":{"organizationName":"Acme Org","grantAmount":"$20,000","projectDescription":"clothing drive"}}''\<close>

text \<open>An analysis request; in the body text each line feed is the escape \<open>\n\<close>.\<close>

definition test_org_text :: string where
  "test_org_text = ''Organization: Test Org\<newline>Founded: 2020\<newline>Grant Request: $50,000''"

definition analyze_request :: jsval where
  "analyze_request =
     JObj [(''text_content'', JStr test_org_text), (''filename'', JStr ''test-proposal.txt'')]"

definition analyze_text :: string where
  \<open>analyze_text =
     ''{"text_content":"Organization: Test Org'' @ [CHR 0x5C, CHR ''n''] @ ''Founded: 2020''
       @ [CHR 0x5C, CHR ''n''] @ ''Grant Request: $50,000","filename":"test-proposal.txt"}''\<close>

text \<open>A reply of the model that gives the founding year as a number.\<close>

definition year_reply :: string where
  \<open>year_reply = ''{"organizationName":"Test Org","foundingYear":2020}''\<close>

text \<open>\<open>JSON.parse\<close> on the texts of the examples; any other text is taken as malformed.\<close>

definition example_documents :: "(string \<times> jsval) list" where
  "example_documents =
     [(decline_text ''sustainability'', decline_request ''sustainability''),
      (decline_text ''not_a_real_code'', decline_request ''not_a_real_code''),
      (decline_text ''toString'', decline_request ''toString''),
      (analyze_text, analyze_request),
      (year_reply,
       JObj [(''organizationName'', JStr ''Test Org''), (''foundingYear'', JNum ''2020'')])]"

definition example_parse :: "string \<Rightarrow> error + jsval" where
  "example_parse s =
     (case map_of example_documents s of Some v \<Rightarrow> Inr v | None \<Rightarrow> Inl SyntaxError)"

text \<open>
  Three runtimes: no credential; a credential and a model whose letter call fails after
  its memo call has succeeded; a credential and a model that answers every call.
\<close>

definition no_credential :: runtime where
  "no_credential =
     \<lparr>OPENAI_API_KEY = None, JSON_parse = example_parse, create = (\<lambda>p. Inl APIError)\<rparr>"

definition letter_call_fails :: runtime where
  "letter_call_fails =
     \<lparr>OPENAI_API_KEY = Some ''sk-example'', JSON_parse = example_parse,
      create = (\<lambda>p. case p of
                  MemoPrompt a b c d \<Rightarrow> Inr (JStr ''MODEL MEMO'')
                | _ \<Rightarrow> Inl APIError)\<rparr>"

definition model_answers :: runtime where
  "model_answers =
     \<lparr>OPENAI_API_KEY = Some ''sk-example'', JSON_parse = example_parse,
      create = (\<lambda>p. case p of
                  MemoPrompt a b c d \<Rightarrow> Inr (JStr ''MODEL MEMO'')
                | LetterPrompt a \<Rightarrow> Inr (JStr ''MODEL LETTER'')
                | ExtractionPrompt a \<Rightarrow> Inr (JStr year_reply))\<rparr>"

definition post :: "string \<Rightarrow> bool \<Rightarrow> request" where
  "post text again = \<lparr>req_method = ''POST'', body = text, rereadable = again\<rparr>"

text \<open>The example text as an uploaded file.\<close>

definition test_org_file :: UploadedFile where
  "test_org_file =
     \<lparr>proposal_hash = ''0f3a'', text_content = test_org_text,
      filename = ''test-proposal.txt'', file_size = 59\<rparr>"


text \<open>
  The body of the response that the \<open>catch\<close> block of the generate-decline function
  builds from its two templates.
\<close>

definition fallback_body :: "string \<Rightarrow> string \<Rightarrow> jsval" where
  "fallback_body memo letter =
     JObj [(''internal_rationale'', JStr memo),
           (''external_reply'', JStr letter),
           (''generation_time_ms'', JNum ''1000'')]"

text \<open>The two template texts for the sustainability scenario.\<close>

definition acme_memo :: string where
  "acme_memo = ''Acme Org requests $20,000 to support clothing drive.\<newline>\<newline>I recommend this request be declined for sustainability concerns. No plan to sustain funding after grant period.\<newline>\<newline>Rationale: Sustainability Concerns''"

definition acme_letter :: string where
  "acme_letter = ''Dear Acme Org,\<newline>\<newline>Thank you for your proposal submission to The New York Community Trust. We appreciate your organization's dedication to serving the community.\<newline>\<newline>After careful review, we have determined that we will not be able to provide funding for this request at this time. While we recognize your important work, this proposal does not align with our current funding priorities.\<newline>\<newline>We encourage you to review our updated guidelines and consider applying for future opportunities.\<newline>\<newline>Best regards,\<newline>NYCT Program Team''"

section \<open>Properties\<close>

lemmas js_defs = ebind_def sub_def sub_or_def lit_def js_or_def get_prop_def
  opt_toLowerCase_def toLowerCase_def lower_char_def table_get_def
  decline_phrase_def rationale_label_def native_function_def

subsection \<open>The three reason tables\<close>

text \<open>
  C8. The three decline-reason tables hold the same eight codes with the same labels,
  character for character: the table of the memo template in the application component
  and the options of the selection list both equal \<open>reasonDescriptions\<close> of the
  generate-decline function, entry by entry and in the same order. The tables are
  constants: no handler takes one as an argument that it could change or returns one.
\<close>

theorem reason_tables_agree:
  "reasonLabels = reasonDescriptions
   \<and> map (\<lambda>r. (value r, label r)) DECLINE_REASONS = reasonDescriptions
   \<and> length reasonDescriptions = 8
   \<and> distinct (map fst reasonDescriptions)"
  by (simp add: reasonLabels_def reasonDescriptions_def DECLINE_REASONS_def)

subsection \<open>The handlers, by the outcome of their try block\<close>

lemma generate_try_uses_body: "snd (generate_try rt req False) = True"
  by (simp add: generate_try_def req_json_def)

lemma generate_decline_alt:
  "generate_decline rt req =
     (if req_method req = ''OPTIONS'' then Inr preflight_response
      else (case fst (generate_try rt req False) of
              Inr resp \<Rightarrow> Inr resp
            | Inl e \<Rightarrow> fst (generate_catch rt req True)))"
  using generate_try_uses_body [of rt req]
  by (cases "generate_try rt req False") (auto simp add: generate_decline_def split: sum.splits)

lemma generate_catch_alt:
  "fst (generate_catch rt req True) =
     (if rereadable req then ebind (JSON_parse rt (body req)) fallback_documents
      else Inl TypeError)"
  by (simp add: generate_catch_def req_json_def ebind_def)

lemma analyze_proposal_alt:
  "analyze_proposal rt req =
     (if req_method req = ''OPTIONS'' then Inr preflight_response
      else (case fst (analyze_try rt req False) of
              Inr resp \<Rightarrow> Inr resp
            | Inl e \<Rightarrow> Inr analyze_catch))"
  by (cases "analyze_try rt req False") (simp add: analyze_proposal_def)

lemma no_credential_generate_try:
  "OPENAI_API_KEY rt = None \<Longrightarrow> \<exists>e. fst (generate_try rt req False) = Inl e"
  by (auto simp add: generate_try_def req_json_def new_OpenAI_def ebind_def split: sum.splits)

lemma no_credential_analyze_try:
  "OPENAI_API_KEY rt = None \<Longrightarrow> \<exists>e. fst (analyze_try rt req False) = Inl e"
  by (auto simp add: analyze_try_def req_json_def new_OpenAI_def ebind_def split: sum.splits)

text \<open>Every response that the generate-decline function builds has status 200.\<close>

lemma generate_decline_status:
  assumes "generate_decline rt req = Inr resp"
  shows "status resp = 200"
proof (cases "req_method req = ''OPTIONS''")
  case True
  then show ?thesis
    using assms by (auto simp add: generate_decline_def preflight_response_def)
next
  case False
  show ?thesis
  proof (cases "fst (generate_try rt req False)")
    case (Inr r)
    then have "status r = 200"
      by (auto simp add: generate_try_def req_json_def ebind_def json_response_def
          split: sum.splits)
    then show ?thesis
      using assms False Inr by (simp add: generate_decline_alt)
  next
    case (Inl e)
    then have "fst (generate_catch rt req True) = Inr resp"
      using assms False by (simp add: generate_decline_alt)
    then show ?thesis
      by (auto simp add: generate_catch_alt fallback_documents_def ebind_def
          json_response_def split: sum.splits if_splits)
  qed
qed

subsection \<open>The examples, evaluated\<close>

lemma post_fields:
  "req_method (post t again) = ''POST''" "body (post t again) = t"
  "rereadable (post t again) = again"
  by (simp_all add: post_def)

lemma decline_request_fields:
  "get_prop (decline_request c) ''reason_code'' = Inr (JStr c)"
  "get_prop (decline_request c) ''specific_reasons''
     = Inr (JStr ''No plan to sustain funding after grant period.'')"
  "get_prop (decline_request c) ''proposal_summary'' = Inr acme_summary"
  by (simp_all add: decline_request_def get_prop_def)

lemma analyze_request_fields:
  "get_prop analyze_request ''text_content'' = Inr (JStr test_org_text)"
  "get_prop analyze_request ''filename'' = Inr (JStr ''test-proposal.txt'')"
  by (simp_all add: analyze_request_def get_prop_def)

lemma parse_sustainability:
  "example_parse (decline_text ''sustainability'') = Inr (decline_request ''sustainability'')"
  by (simp add: example_parse_def example_documents_def decline_text_def)

lemma parse_toString:
  "example_parse (decline_text ''toString'') = Inr (decline_request ''toString'')"
  by (simp add: example_parse_def example_documents_def decline_text_def)

lemma parse_analyze: "example_parse analyze_text = Inr analyze_request"
  by (simp add: example_parse_def example_documents_def decline_text_def analyze_text_def)

lemma parse_year_reply:
  "example_parse year_reply
     = Inr (JObj [(''organizationName'', JStr ''Test Org''), (''foundingYear'', JNum ''2020'')])"
  by (simp add: example_parse_def example_documents_def decline_text_def analyze_text_def
      year_reply_def)

lemma letter_call_fails_fields:
  "OPENAI_API_KEY letter_call_fails = Some ''sk-example''"
  "JSON_parse letter_call_fails = example_parse"
  "create letter_call_fails (MemoPrompt a b c d) = Inr (JStr ''MODEL MEMO'')"
  "create letter_call_fails (LetterPrompt a) = Inl APIError"
  by (simp_all add: letter_call_fails_def)

lemma acme_memo_eval:
  "fallbackMemo acme_summary (JStr ''sustainability'')
     (JStr ''No plan to sustain funding after grant period.'') = Inr acme_memo"
  by (simp add: fallbackMemo_def acme_summary_def acme_memo_def reasonDescriptions_def js_defs)

lemma acme_letter_eval: "fallbackLetter acme_summary = Inr acme_letter"
  by (simp add: fallbackLetter_def acme_summary_def acme_letter_def js_defs)

lemma acme_documents:
  "fallback_documents (decline_request ''sustainability'')
     = Inr (json_response (fallback_body acme_memo acme_letter))"
  by (simp add: fallback_documents_def decline_request_fields ebind_def
      acme_memo_eval acme_letter_eval fallback_body_def)

lemma acme_memoPrompt:
  "memoPrompt (JStr ''sustainability'') (JStr ''No plan to sustain funding after grant period.'')
     acme_summary
   = Inr (MemoPrompt ''sustainability concerns''
            ''No plan to sustain funding after grant period.'' ''Sustainability Concerns''
            acme_summary)"
  by (simp add: memoPrompt_def reasonDescriptions_def js_defs)

lemma acme_letterPrompt: "letterPrompt acme_summary = Inr (LetterPrompt ''Acme Org'')"
  by (simp add: letterPrompt_def acme_summary_def js_defs)

lemma letter_failure_try:
  "fst (generate_try letter_call_fails (post (decline_text ''sustainability'') again) False)
     = Inl APIError"
  by (simp add: generate_try_def req_json_def new_OpenAI_def post_fields
      letter_call_fails_fields parse_sustainability decline_request_fields acme_memoPrompt
      acme_letterPrompt ebind_def)

lemma toString_phrase:
  "decline_phrase Deno_Object_prototype reasonDescriptions (JStr ''toString'')
     ''the specified reason'' = Inl TypeError"
  by (simp add: reasonDescriptions_def Deno_Object_prototype_def Object_prototype_def js_defs)


subsection \<open>The fallback of the generate-decline function\<close>

text \<open>
  C5, at the request of the scenario (reason code \<open>sustainability\<close>, the justification
  "No plan to sustain funding after grant period.", the summary of Acme Org with $20,000
  and a clothing drive) as a standard request, with no credential configured: the \<open>try\<close>
  block throws in the constructor of the client, the second read of the body rejects,
  and the handler rejects before the fallback memo is built, so that no internal
  rationale is returned. The memo template applied to the values of the scenario does
  give a text whose last line is \<open>Rationale: Sustainability Concerns\<close>.
\<close>

theorem acme_scenario_returns_no_rationale:
  "generate_decline no_credential (post (decline_text ''sustainability'') False)
     = Inl TypeError
   \<and> fst (generate_try no_credential (post (decline_text ''sustainability'') False) False)
       = Inl OpenAIError
   \<and> fallbackMemo acme_summary (JStr ''sustainability'')
        (JStr ''No plan to sustain funding after grant period.'') = Inr acme_memo
   \<and> suffix ''\<newline>Rationale: Sustainability Concerns'' acme_memo"
proof -
  have "suffix ''\<newline>Rationale: Sustainability Concerns'' acme_memo"
    by (simp add: acme_memo_def suffix_to_prefix)
  moreover have
    "fst (generate_try no_credential (post (decline_text ''sustainability'') False) False)
       = Inl OpenAIError"
    by (simp add: generate_try_def req_json_def new_OpenAI_def no_credential_def post_def
        parse_sustainability ebind_def decline_request_fields)
  moreover have
    "generate_decline no_credential (post (decline_text ''sustainability'') False)
       = Inl TypeError"
    by (simp add: generate_decline_def generate_try_def generate_catch_def req_json_def
        new_OpenAI_def no_credential_def post_def parse_sustainability
        ebind_def decline_request_fields)
  ultimately show ?thesis using acme_memo_eval by simp
qed

text \<open>
  C4. When the \<open>try\<close> block of the generate-decline function throws, the body has been
  read once, and the handler's result is that of the \<open>catch\<close> block, which reads the body
  of the same request again: on a request whose body can be read only once the second
  read fails and the handler rejects with a \<open>TypeError\<close>; otherwise the result is built
  from the second parse. So a fallback response is produced only for a request whose body
  can be read twice.
\<close>

theorem generate_catch_reads_body_again:
  assumes "req_method req \<noteq> ''OPTIONS''" and "fst (generate_try rt req False) = Inl e"
  shows "snd (generate_try rt req False)
     \<and> generate_decline rt req =
         (if rereadable req then ebind (JSON_parse rt (body req)) fallback_documents
          else Inl TypeError)
     \<and> (\<forall>resp. generate_decline rt req = Inr resp \<longrightarrow> rereadable req)"
proof -
  have "generate_decline rt req = fst (generate_catch rt req True)"
    using assms by (simp add: generate_decline_alt)
  then have "generate_decline rt req =
         (if rereadable req then ebind (JSON_parse rt (body req)) fallback_documents
          else Inl TypeError)"
    by (simp add: generate_catch_alt)
  then show ?thesis using generate_try_uses_body [of rt req] by auto
qed

theorem generate_catch_reads_body_again_witness:
  "fst (generate_try letter_call_fails (post (decline_text ''sustainability'') False) False)
     = Inl APIError
   \<and> generate_decline letter_call_fails (post (decline_text ''sustainability'') False)
       = Inl TypeError
   \<and> fst (generate_try letter_call_fails (post (decline_text ''sustainability'') True) False)
       = Inl APIError
   \<and> generate_decline letter_call_fails (post (decline_text ''sustainability'') True)
       = Inr (json_response (fallback_body acme_memo acme_letter))"
  using generate_catch_reads_body_again
    [of "post (decline_text ''sustainability'') False" letter_call_fails APIError]
    generate_catch_reads_body_again
    [of "post (decline_text ''sustainability'') True" letter_call_fails APIError]
  by (simp add: letter_failure_try post_fields letter_call_fails_fields parse_sustainability
      acme_documents ebind_def)

text \<open>
  C7, at a request the handler does not answer: with no credential configured the \<open>try\<close>
  block throws in the constructor of the client; the \<open>catch\<close> block reads the body of a
  standard request a second time, that read rejects, and the handler rejects without
  having built a response.
\<close>

theorem generate_no_credential_rejects:
  "generate_decline no_credential (post (decline_text ''sustainability'') False) = Inl TypeError"
  by (simp add: generate_decline_def generate_try_def generate_catch_def req_json_def
        new_OpenAI_def no_credential_def post_def parse_sustainability
        ebind_def decline_request_fields)

subsection \<open>A failing model call\<close>

text \<open>
  The claim that a failed call replaces only its own document fails where the memo call
  succeeds and the letter call fails: on a request whose body can be read again both
  documents are the templates and the memo of the model is dropped; on a standard
  request the handler rejects.
\<close>

theorem generate_letter_failure_discards_model_memo:
  "memoPrompt (JStr ''sustainability'') (JStr ''No plan to sustain funding after grant period.'')
     acme_summary
   = Inr (MemoPrompt ''sustainability concerns''
            ''No plan to sustain funding after grant period.'' ''Sustainability Concerns''
            acme_summary)
   \<and> create letter_call_fails
        (MemoPrompt ''sustainability concerns''
           ''No plan to sustain funding after grant period.'' ''Sustainability Concerns''
           acme_summary) = Inr (JStr ''MODEL MEMO'')
   \<and> generate_decline letter_call_fails (post (decline_text ''sustainability'') True)
       = Inr (json_response (fallback_body acme_memo acme_letter))
   \<and> acme_memo \<noteq> ''MODEL MEMO''
   \<and> generate_decline letter_call_fails (post (decline_text ''sustainability'') False)
       = Inl TypeError"
  by (simp add: acme_memoPrompt acme_letterPrompt letter_call_fails_fields post_fields
      generate_decline_def generate_try_def generate_catch_def req_json_def new_OpenAI_def
      parse_sustainability decline_request_fields acme_documents ebind_def acme_memo_def)

text \<open>
  C1, amended. If either model call fails, no document of the model is returned: every
  response that the handler then gives is built from the two templates alone, also for
  the document whose call had succeeded, and on a request whose body can be read again
  the handler gives that response.
\<close>

theorem generate_failure_uses_both_templates:
  assumes "req_method req \<noteq> ''OPTIONS''"
    and "JSON_parse rt (body req) = Inr b"
    and "get_prop b ''reason_code'' = Inr rc"
    and "get_prop b ''specific_reasons'' = Inr sr"
    and "get_prop b ''proposal_summary'' = Inr ps"
    and "memoPrompt rc sr ps = Inr mp" and "letterPrompt ps = Inr lp"
    and "create rt mp = Inl e \<or> create rt lp = Inl e"
  shows "(\<forall>resp. generate_decline rt req = Inr resp \<longrightarrow>
            ebind (fallbackMemo ps rc sr) (\<lambda>memo.
            ebind (fallbackLetter ps) (\<lambda>letter.
            Inr (json_response (fallback_body memo letter)))) = Inr resp)
     \<and> (rereadable req \<longrightarrow>
          generate_decline rt req =
            ebind (fallbackMemo ps rc sr) (\<lambda>memo.
            ebind (fallbackLetter ps) (\<lambda>letter.
            Inr (json_response (fallback_body memo letter)))))"
proof -
  have "\<exists>e'. fst (generate_try rt req False) = Inl e'"
    using assms
    by (auto simp add: generate_try_def req_json_def ebind_def split: sum.splits)
  then have "generate_decline rt req = fst (generate_catch rt req True)"
    using assms(1) by (auto simp add: generate_decline_alt)
  then have "generate_decline rt req =
      (if rereadable req
       then ebind (fallbackMemo ps rc sr) (\<lambda>memo.
            ebind (fallbackLetter ps) (\<lambda>letter.
            Inr (json_response (fallback_body memo letter))))
       else Inl TypeError)"
    using assms
    by (simp add: generate_catch_alt fallback_documents_def fallback_body_def ebind_def)
  then show ?thesis by (cases "rereadable req") simp_all
qed

theorem generate_failure_uses_both_templates_witness:
  "req_method (post (decline_text ''sustainability'') True) \<noteq> ''OPTIONS''
   \<and> rereadable (post (decline_text ''sustainability'') True)
   \<and> create letter_call_fails (LetterPrompt ''Acme Org'') = Inl APIError
   \<and> generate_decline letter_call_fails (post (decline_text ''sustainability'') True)
       = Inr (json_response (fallback_body acme_memo acme_letter))"
proof -
  have "rereadable (post (decline_text ''sustainability'') True) \<longrightarrow>
      generate_decline letter_call_fails (post (decline_text ''sustainability'') True) =
        ebind (fallbackMemo acme_summary (JStr ''sustainability'')
                 (JStr ''No plan to sustain funding after grant period.'')) (\<lambda>memo.
        ebind (fallbackLetter acme_summary) (\<lambda>letter.
        Inr (json_response (fallback_body memo letter))))"
    by (rule generate_failure_uses_both_templates
        [of "post (decline_text ''sustainability'') True" letter_call_fails
            "decline_request ''sustainability''" "JStr ''sustainability''"
            "JStr ''No plan to sustain funding after grant period.''" acme_summary
            "MemoPrompt ''sustainability concerns''
                ''No plan to sustain funding after grant period.'' ''Sustainability Concerns''
                acme_summary"
            "LetterPrompt ''Acme Org''" APIError, THEN conjunct2])
      (simp_all add: post_fields letter_call_fails_fields parse_sustainability
        decline_request_fields acme_memoPrompt acme_letterPrompt)
  then show ?thesis
    by (simp add: post_fields letter_call_fails_fields acme_memo_eval acme_letter_eval
        ebind_def)
qed

subsection \<open>A reason code outside the table\<close>

text \<open>
  The claim that an unknown code gives the phrase "the specified reason" and never fails
  the request fails in two ways. The label of the line \<open>Rationale:\<close> is resolved apart and
  falls back to another phrase, "Decline Reason". And the code \<open>toString\<close>, which is none of
  the eight, finds the function that every object inherits; that function has no
  \<open>toLowerCase\<close>, the \<open>try\<close> block throws before any call of the model, the template of the
  \<open>catch\<close> block throws again, and the request fails even with a model that answers and
  a body that can be read twice.
\<close>

theorem unknown_code_label_resolution:
  "rationale_label Deno_Object_prototype reasonDescriptions (JStr ''not_a_real_code'') = Inr ''Decline Reason''
   \<and> fallbackMemo acme_summary (JStr ''not_a_real_code'')
        (JStr ''No plan to sustain funding after grant period.'')
       = Inr ''Acme Org requests $20,000 to support clothing drive.\<newline>\<newline>I recommend this request be declined for the specified reason. No plan to sustain funding after grant period.\<newline>\<newline>Rationale: Decline Reason''
   \<and> decline_phrase Deno_Object_prototype reasonDescriptions (JStr ''toString'') ''the specified reason''
       = Inl TypeError
   \<and> generate_decline model_answers (post (decline_text ''toString'') True) = Inl TypeError"
proof -
  have prompt: "memoPrompt (JStr ''toString'') sr acme_summary = Inl TypeError" for sr
    by (simp add: memoPrompt_def toString_phrase ebind_def)
  have memo: "fallbackMemo acme_summary (JStr ''toString'') sr = Inl TypeError" for sr
    by (simp add: fallbackMemo_def toString_phrase acme_summary_def sub_or_def sub_def
        get_prop_def js_or_def lit_def ebind_def)
  have docs: "fallback_documents (decline_request ''toString'') = Inl TypeError"
    by (simp add: fallback_documents_def decline_request_fields memo ebind_def)
  have "generate_decline model_answers (post (decline_text ''toString'') True) = Inl TypeError"
    by (simp add: generate_decline_def generate_try_def generate_catch_def req_json_def
        new_OpenAI_def model_answers_def post_fields parse_toString decline_request_fields
        prompt docs ebind_def)
  moreover have
    "rationale_label Deno_Object_prototype reasonDescriptions (JStr ''not_a_real_code'') = Inr ''Decline Reason''"
    by (simp add: reasonDescriptions_def Deno_Object_prototype_def Object_prototype_def js_defs)
  moreover have "fallbackMemo acme_summary (JStr ''not_a_real_code'')
        (JStr ''No plan to sustain funding after grant period.'')
       = Inr ''Acme Org requests $20,000 to support clothing drive.\<newline>\<newline>I recommend this request be declined for the specified reason. No plan to sustain funding after grant period.\<newline>\<newline>Rationale: Decline Reason''"
    by (simp add: fallbackMemo_def acme_summary_def reasonDescriptions_def
        Deno_Object_prototype_def Object_prototype_def js_defs)
  ultimately show ?thesis using toString_phrase by simp
qed

lemma table_get_missing:
  assumes "map_of tbl code = None" and "map_of proto code = None"
  shows "table_get proto tbl (JStr code) = Inr JUndefined"
  using assms by (simp add: table_get_def ebind_def)

lemma generic_texts:
  assumes "map_of tbl code = None" and "map_of proto code = None"
    and "generic \<noteq> []"
  shows "decline_phrase proto tbl (JStr code) generic = Inr generic"
    and "rationale_label proto tbl (JStr code) = Inr ''Decline Reason''"
  using assms
  by (simp_all add: decline_phrase_def rationale_label_def table_get_missing sub_or_def sub_def
      ebind_def opt_toLowerCase_def js_or_def)

lemma Deno_prototype_missing:
  "map_of Object_prototype code = None \<Longrightarrow> map_of Deno_Object_prototype code = None"
  by (auto simp add: map_of_eq_None_iff Deno_Object_prototype_def)

text \<open>
  The code \<open>__proto__\<close> is an unknown code like any other in the edge function, and throws
  in the memo template of the application component.
\<close>

lemma proto_code:
  "decline_phrase Deno_Object_prototype reasonDescriptions (JStr ''__proto__'')
     ''the specified reason'' = Inr ''the specified reason''"
  "rationale_label Deno_Object_prototype reasonDescriptions (JStr ''__proto__'')
     = Inr ''Decline Reason''"
  "decline_phrase Object_prototype reasonLabels (JStr ''__proto__'') ''the selected reason''
     = Inl TypeError"
  by (simp_all add: reasonDescriptions_def reasonLabels_def Deno_Object_prototype_def
      Object_prototype_def js_defs)

text \<open>
  C6, amended. For every reason code that is neither one of the eight codes nor the name
  of a property inherited from \<open>Object.prototype\<close>, label resolution does not fail: the
  decline sentence gets the phrase "the specified reason" and the line \<open>Rationale:\<close> gets
  "Decline Reason", in the prompt of the memo and at the end of every fallback memo. The
  memo template of the application component resolves such a code to "the selected
  reason" and "Decline Reason".
\<close>

theorem unknown_code_generic_texts:
  assumes "map_of reasonDescriptions code = None" and "map_of Object_prototype code = None"
  shows "decline_phrase Deno_Object_prototype reasonDescriptions (JStr code) ''the specified reason''
           = Inr ''the specified reason''
     \<and> rationale_label Deno_Object_prototype reasonDescriptions (JStr code) = Inr ''Decline Reason''
     \<and> memoPrompt (JStr code) (JStr reasons) ps
           = Inr (MemoPrompt ''the specified reason'' reasons ''Decline Reason'' ps)
     \<and> (\<forall>memo. fallbackMemo ps (JStr code) (JStr reasons) = Inr memo \<longrightarrow>
           suffix (''\<newline>\<newline>I recommend this request be declined for the specified reason. ''
                     @ reasons @ ''\<newline>\<newline>Rationale: Decline Reason'') memo)
     \<and> decline_phrase Object_prototype reasonLabels (JStr code) ''the selected reason''
           = Inr ''the selected reason''
     \<and> rationale_label Object_prototype reasonLabels (JStr code) = Inr ''Decline Reason''"
proof -
  have p: "decline_phrase Deno_Object_prototype reasonDescriptions (JStr code) ''the specified reason''
           = Inr ''the specified reason''"
    and l: "rationale_label Deno_Object_prototype reasonDescriptions (JStr code) = Inr ''Decline Reason''"
    using generic_texts [OF assms(1) Deno_prototype_missing [OF assms(2)],
        of "''the specified reason''"] by simp_all
  have ui: "map_of reasonLabels code = None"
    using assms(1) by (simp add: reasonLabels_def reasonDescriptions_def)
  have pu: "decline_phrase Object_prototype reasonLabels (JStr code) ''the selected reason''
           = Inr ''the selected reason''"
    and lu: "rationale_label Object_prototype reasonLabels (JStr code) = Inr ''Decline Reason''"
    using generic_texts [OF ui assms(2), of "''the selected reason''"] by simp_all
  have r: "sub (Inr (JStr reasons)) = Inr reasons"
    by (simp add: sub_def ebind_def)
  have m: "memoPrompt (JStr code) (JStr reasons) ps
           = Inr (MemoPrompt ''the specified reason'' reasons ''Decline Reason'' ps)"
    by (simp add: memoPrompt_def p l r ebind_def)
  have "suffix (''\<newline>\<newline>I recommend this request be declined for the specified reason. ''
                     @ reasons @ ''\<newline>\<newline>Rationale: Decline Reason'') memo"
    if "fallbackMemo ps (JStr code) (JStr reasons) = Inr memo" for memo
  proof -
    from that obtain s1 s2 s3 where memo:
      "memo = s1 @ '' requests '' @ s2 @ '' to support '' @ s3
         @ ''.\<newline>\<newline>I recommend this request be declined for the specified reason. ''
         @ reasons @ ''\<newline>\<newline>Rationale: Decline Reason''"
      by (auto simp add: fallbackMemo_def p l r lit_def split: sum.splits)
    show ?thesis
      unfolding memo
      by (rule suffixI [of _ "s1 @ '' requests '' @ s2 @ '' to support '' @ s3 @ ''.''"]) simp
  qed
  then show ?thesis using p l m pu lu by blast
qed

theorem unknown_code_generic_texts_witness:
  "map_of reasonDescriptions ''not_a_real_code'' = None
   \<and> map_of Object_prototype ''not_a_real_code'' = None
   \<and> memoPrompt (JStr ''not_a_real_code'') (JStr ''x'') acme_summary
        = Inr (MemoPrompt ''the specified reason'' ''x'' ''Decline Reason'' acme_summary)
   \<and> decline_phrase Object_prototype reasonLabels (JStr ''not_a_real_code'') ''the selected reason''
        = Inr ''the selected reason''"
  using unknown_code_generic_texts [of "''not_a_real_code''" "''x''" acme_summary]
  by (simp add: reasonDescriptions_def Object_prototype_def)

subsection \<open>The analyze-proposal function\<close>

text \<open>
  The claim that every summary has the declared shape fails on the success path: a reply
  of the model that gives the founding year as a number is passed on as it is. On the
  fallback path nine of the declared fields are absent; they are not \<open>null\<close>.
\<close>

theorem analyze_passes_on_number_field:
  "analyze_proposal model_answers (post analyze_text False)
     = Inr (json_response (JObj
         [(''summary'',
           JObj [(''organizationName'', JStr ''Test Org''), (''foundingYear'', JNum ''2020'')]),
          (''analysis_time_ms'', JNum ''2000'')]))
   \<and> \<not> well_formed_summary
         (JObj [(''organizationName'', JStr ''Test Org''), (''foundingYear'', JNum ''2020'')])
   \<and> get_prop analyze_fallback_summary ''organizationMission'' = Inr JUndefined"
proof -
  have "\<not> well_formed_summary
         (JObj [(''organizationName'', JStr ''Test Org''), (''foundingYear'', JNum ''2020'')])"
    by (simp add: well_formed_summary_def string_fields_def string_or_absent_def)
  moreover have "analyze_proposal model_answers (post analyze_text False)
     = Inr (json_response (JObj
         [(''summary'',
           JObj [(''organizationName'', JStr ''Test Org''), (''foundingYear'', JNum ''2020'')]),
          (''analysis_time_ms'', JNum ''2000'')]))"
    by (simp add: analyze_proposal_def analyze_try_def req_json_def new_OpenAI_def
        extractionPrompt_def substring_0_def model_answers_def post_fields parse_analyze
        analyze_request_fields parse_year_reply ebind_def)
  ultimately show ?thesis
    by (simp add: analyze_fallback_summary_def get_prop_def)
qed

lemma analyze_try_success:
  assumes "JSON_parse rt (body req) = Inr b"
    and "get_prop b ''text_content'' = Inr (JStr t)"
    and "OPENAI_API_KEY rt = Some k"
    and "create rt (ExtractionPrompt (take 8000 t)) = Inr reply"
    and "ToString reply = Inr s" and "JSON_parse rt s = Inr v"
  shows "fst (analyze_try rt req False) =
           Inr (json_response (JObj [(''summary'', v), (''analysis_time_ms'', JNum ''2000'')]))"
proof -
  have "\<exists>f. get_prop b ''filename'' = Inr f"
    using assms(2) by (cases b) (simp_all add: get_prop_def)
  then show ?thesis
    using assms
    by (auto simp add: analyze_try_def req_json_def new_OpenAI_def extractionPrompt_def
        substring_0_def ebind_def)
qed

lemma analyze_try_Inr:
  assumes "fst (analyze_try rt req False) = Inr resp"
  shows "\<exists>b t k reply s v.
           JSON_parse rt (body req) = Inr b
           \<and> get_prop b ''text_content'' = Inr (JStr t)
           \<and> OPENAI_API_KEY rt = Some k
           \<and> create rt (ExtractionPrompt (take 8000 t)) = Inr reply
           \<and> ToString reply = Inr s \<and> JSON_parse rt s = Inr v"
  using assms
  by (auto simp add: analyze_try_def req_json_def new_OpenAI_def ebind_def
      extractionPrompt_def substring_0_def split: sum.splits jsval.splits option.splits)

text \<open>
  C2, amended. The analyze-proposal function answers every request, and with status 200:
  it never rejects. On the success path, that is when the body parses, its
  \<open>text_content\<close> is a string, a credential is configured, the model answers and its
  reply parses, the summary of the response is the value parsed from the reply, whatever
  that value is. On every other path of a request that is not a preflight, the response
  is the fixed fallback, whose summary holds the three fields \<open>organizationName\<close>,
  \<open>projectDescription\<close> and \<open>grantAmount\<close> as strings and no other field; the nine other
  declared fields are absent.
\<close>

theorem analyze_always_replies:
  "(\<exists>resp. analyze_proposal rt req = Inr resp \<and> status resp = 200)
   \<and> (req_method req = ''OPTIONS'' \<longrightarrow> analyze_proposal rt req = Inr preflight_response)
   \<and> (\<forall>b t k reply s v.
         req_method req \<noteq> ''OPTIONS''
         \<and> JSON_parse rt (body req) = Inr b
         \<and> get_prop b ''text_content'' = Inr (JStr t)
         \<and> OPENAI_API_KEY rt = Some k
         \<and> create rt (ExtractionPrompt (take 8000 t)) = Inr reply
         \<and> ToString reply = Inr s \<and> JSON_parse rt s = Inr v
         \<longrightarrow> analyze_proposal rt req =
               Inr (json_response (JObj
                 [(''summary'', v), (''analysis_time_ms'', JNum ''2000'')])))
   \<and> (req_method req \<noteq> ''OPTIONS''
        \<and> \<not> (\<exists>b t k reply s v.
               JSON_parse rt (body req) = Inr b
               \<and> get_prop b ''text_content'' = Inr (JStr t)
               \<and> OPENAI_API_KEY rt = Some k
               \<and> create rt (ExtractionPrompt (take 8000 t)) = Inr reply
               \<and> ToString reply = Inr s \<and> JSON_parse rt s = Inr v)
        \<longrightarrow> analyze_proposal rt req = Inr analyze_catch)
   \<and> content analyze_catch = Json (JObj
        [(''summary'',
          JObj [(''organizationName'', JStr ''Organization''),
                (''projectDescription'', JStr ''Unable to fully analyze proposal''),
                (''grantAmount'', JStr ''Unknown'')]),
         (''analysis_time_ms'', JNum ''1000'')])
   \<and> well_formed_summary analyze_fallback_summary"
proof -
  have wf: "well_formed_summary analyze_fallback_summary"
    by (simp add: well_formed_summary_def analyze_fallback_summary_def string_fields_def
        string_or_absent_def string_list_or_absent_def)
  have c: "content analyze_catch = Json (JObj
        [(''summary'',
          JObj [(''organizationName'', JStr ''Organization''),
                (''projectDescription'', JStr ''Unable to fully analyze proposal''),
                (''grantAmount'', JStr ''Unknown'')]),
         (''analysis_time_ms'', JNum ''1000'')])"
    by (simp add: analyze_catch_def analyze_fallback_summary_def json_response_def)
  have st: "status preflight_response = 200" "status analyze_catch = 200"
    "status (json_response x) = 200" for x
    by (simp_all add: preflight_response_def analyze_catch_def json_response_def)
  have preflight: "analyze_proposal rt req = Inr preflight_response"
    if "req_method req = ''OPTIONS''"
    using that by (simp add: analyze_proposal_def)
  have success: "analyze_proposal rt req =
      Inr (json_response (JObj [(''summary'', v), (''analysis_time_ms'', JNum ''2000'')]))"
    if "req_method req \<noteq> ''OPTIONS''" "JSON_parse rt (body req) = Inr b"
      "get_prop b ''text_content'' = Inr (JStr t)" "OPENAI_API_KEY rt = Some k"
      "create rt (ExtractionPrompt (take 8000 t)) = Inr reply"
      "ToString reply = Inr s" "JSON_parse rt s = Inr v" for b t k reply s v
    using that(1) analyze_try_success [OF that(2-7)] by (simp add: analyze_proposal_alt)
  have failure: "analyze_proposal rt req = Inr analyze_catch"
    if "req_method req \<noteq> ''OPTIONS''"
      and "\<not> (\<exists>b t k reply s v.
               JSON_parse rt (body req) = Inr b
               \<and> get_prop b ''text_content'' = Inr (JStr t)
               \<and> OPENAI_API_KEY rt = Some k
               \<and> create rt (ExtractionPrompt (take 8000 t)) = Inr reply
               \<and> ToString reply = Inr s \<and> JSON_parse rt s = Inr v)"
  proof (cases "fst (analyze_try rt req False)")
    case (Inl e)
    then show ?thesis using that(1) by (simp add: analyze_proposal_alt)
  next
    case (Inr resp)
    then show ?thesis using analyze_try_Inr that(2) by blast
  qed
  have replies: "\<exists>resp. analyze_proposal rt req = Inr resp \<and> status resp = 200"
  proof (cases "req_method req = ''OPTIONS''")
    case True
    then show ?thesis by (simp add: preflight st)
  next
    case False
    show ?thesis
    proof (cases "fst (analyze_try rt req False)")
      case (Inl e)
      then show ?thesis using False by (simp add: analyze_proposal_alt st)
    next
      case (Inr resp)
      then obtain b t k reply s v where
        "JSON_parse rt (body req) = Inr b" "get_prop b ''text_content'' = Inr (JStr t)"
        "OPENAI_API_KEY rt = Some k" "create rt (ExtractionPrompt (take 8000 t)) = Inr reply"
        "ToString reply = Inr s" "JSON_parse rt s = Inr v"
        using analyze_try_Inr by blast
      then show ?thesis using success [OF False] by (simp add: st)
    qed
  qed
  show ?thesis
    using replies preflight success failure c wf by blast
qed

theorem analyze_always_replies_witness:
  "analyze_proposal model_answers (post analyze_text False)
     = Inr (json_response (JObj
         [(''summary'',
           JObj [(''organizationName'', JStr ''Test Org''), (''foundingYear'', JNum ''2020'')]),
          (''analysis_time_ms'', JNum ''2000'')]))
   \<and> analyze_proposal no_credential (post analyze_text False) = Inr analyze_catch
   \<and> analyze_proposal model_answers (post analyze_text False\<lparr>req_method := ''OPTIONS''\<rparr>)
       = Inr preflight_response"
proof -
  note at_success = analyze_always_replies [of model_answers "post analyze_text False"]
  note at_failure = analyze_always_replies [of no_credential "post analyze_text False"]
  note at_preflight = analyze_always_replies
    [of model_answers "post analyze_text False\<lparr>req_method := ''OPTIONS''\<rparr>"]
  have "analyze_proposal model_answers (post analyze_text False)
     = Inr (json_response (JObj
         [(''summary'',
           JObj [(''organizationName'', JStr ''Test Org''), (''foundingYear'', JNum ''2020'')]),
          (''analysis_time_ms'', JNum ''2000'')]))"
    by (rule at_success [THEN conjunct2, THEN conjunct2, THEN conjunct1, rule_format,
          of analyze_request test_org_text "''sk-example''" "JStr year_reply" year_reply])
      (simp add: post_fields model_answers_def parse_analyze analyze_request_fields
        parse_year_reply test_org_text_def)
  moreover have "analyze_proposal no_credential (post analyze_text False) = Inr analyze_catch"
    by (rule at_failure [THEN conjunct2, THEN conjunct2, THEN conjunct2, THEN conjunct1,
          rule_format])
      (simp add: post_fields no_credential_def)
  moreover have
    "analyze_proposal model_answers (post analyze_text False\<lparr>req_method := ''OPTIONS''\<rparr>)
       = Inr preflight_response"
    by (rule at_preflight [THEN conjunct2, THEN conjunct1, rule_format]) simp
  ultimately show ?thesis by simp
qed

text \<open>
  The claim that the fallback summary is built from the input fails on the example
  text: the amount is "Unknown" although the text holds "$50,000", which the pattern of
  the application component finds, and the project description is a fixed sentence, not
  the beginning of the text.
\<close>

theorem analyze_fallback_ignores_input:
  "analyze_proposal no_credential (post analyze_text False) = Inr analyze_catch
   \<and> get_prop analyze_fallback_summary ''grantAmount'' = Inr (JStr ''Unknown'')
   \<and> extractGrantAmount test_org_text = Some ''$50,000''
   \<and> get_prop analyze_fallback_summary ''projectDescription''
       = Inr (JStr ''Unable to fully analyze proposal'')
   \<and> \<not> prefix ''Unable to fully analyze proposal'' test_org_text"
proof -
  have "analyze_proposal no_credential (post analyze_text False) = Inr analyze_catch"
    by (simp add: analyze_proposal_def analyze_try_def req_json_def new_OpenAI_def
        no_credential_def post_fields parse_analyze analyze_request_fields ebind_def)
  moreover have "extractGrantAmount test_org_text = Some ''$50,000''"
    by (simp add: test_org_text_def amount_char_def is_digit_def cents_def)
  moreover have "\<not> prefix ''Unable to fully analyze proposal'' test_org_text"
    by (simp add: test_org_text_def)
  ultimately show ?thesis
    by (simp add: analyze_fallback_summary_def get_prop_def)
qed

text \<open>
  C3, amended. When no credential is configured, or every call of the model fails, the
  analyze-proposal function returns one fixed fallback, the same for every input: the
  organization name "Organization", the project description "Unable to fully analyze
  proposal", the grant amount "Unknown", and 1000 as the analysis time.
\<close>

theorem analyze_fallback_is_constant:
  assumes "req_method req \<noteq> ''OPTIONS''"
    and "OPENAI_API_KEY rt = None \<or> (\<forall>p. \<exists>e. create rt p = Inl e)"
  shows "analyze_proposal rt req =
           Inr (json_response (JObj
             [(''summary'',
               JObj [(''organizationName'', JStr ''Organization''),
                     (''projectDescription'', JStr ''Unable to fully analyze proposal''),
                     (''grantAmount'', JStr ''Unknown'')]),
              (''analysis_time_ms'', JNum ''1000'')]))"
proof -
  have "\<exists>e. fst (analyze_try rt req False) = Inl e"
    using assms(2)
  proof
    assume "OPENAI_API_KEY rt = None"
    then show ?thesis by (rule no_credential_analyze_try)
  next
    assume a: "\<forall>p. \<exists>e. create rt p = Inl e"
    have "ebind (create rt p) f = Inl (projl (create rt p))" for p
      and f :: "jsval \<Rightarrow> error + response"
      using a [rule_format, of p] by (auto simp add: ebind_def)
    then show ?thesis
      by (auto simp add: analyze_try_def req_json_def ebind_def split: sum.splits)
  qed
  then show ?thesis
    using assms(1)
    by (auto simp add: analyze_proposal_alt analyze_catch_def analyze_fallback_summary_def)
qed

theorem analyze_fallback_is_constant_witness:
  "req_method (post analyze_text False) \<noteq> ''OPTIONS''
   \<and> OPENAI_API_KEY no_credential = None
   \<and> analyze_proposal no_credential (post analyze_text False) =
           Inr (json_response (JObj
             [(''summary'',
               JObj [(''organizationName'', JStr ''Organization''),
                     (''projectDescription'', JStr ''Unable to fully analyze proposal''),
                     (''grantAmount'', JStr ''Unknown'')]),
              (''analysis_time_ms'', JNum ''1000'')]))"
  using analyze_fallback_is_constant [of "post analyze_text False" no_credential]
  by (simp add: post_fields no_credential_def)

subsection \<open>Determinism without a credential\<close>

text \<open>
  C9. With no credential configured, the response to a request does not depend on what
  the model would have answered: two runtimes without a credential give the same
  response to the same request, for the analyze-proposal function (analysis time
  included, the response being a value) and for the generate-decline function.
\<close>

theorem no_credential_deterministic:
  assumes "OPENAI_API_KEY rt1 = None" and "OPENAI_API_KEY rt2 = None"
    and "JSON_parse rt1 = JSON_parse rt2"
  shows "analyze_proposal rt1 req = analyze_proposal rt2 req
     \<and> generate_decline rt1 req = generate_decline rt2 req"
proof -
  obtain a1 a2 where "fst (analyze_try rt1 req False) = Inl a1"
    and "fst (analyze_try rt2 req False) = Inl a2"
    using assms(1,2) no_credential_analyze_try by blast
  then have analyze: "analyze_proposal rt1 req = analyze_proposal rt2 req"
    by (simp add: analyze_proposal_alt)
  obtain g1 g2 where "fst (generate_try rt1 req False) = Inl g1"
    and "fst (generate_try rt2 req False) = Inl g2"
    using assms(1,2) no_credential_generate_try by blast
  moreover have "fst (generate_catch rt1 req True) = fst (generate_catch rt2 req True)"
    using assms(3) by (simp add: generate_catch_def req_json_def)
  ultimately have "generate_decline rt1 req = generate_decline rt2 req"
    by (simp add: generate_decline_alt)
  then show ?thesis using analyze by simp
qed

theorem no_credential_deterministic_witness:
  "OPENAI_API_KEY no_credential = None
   \<and> OPENAI_API_KEY (no_credential\<lparr>create := \<lambda>p. Inr (JStr ''MODEL'')\<rparr>) = None
   \<and> analyze_proposal no_credential (post analyze_text False)
       = analyze_proposal (no_credential\<lparr>create := \<lambda>p. Inr (JStr ''MODEL'')\<rparr>)
           (post analyze_text False)
   \<and> generate_decline no_credential (post (decline_text ''sustainability'') True)
       = generate_decline (no_credential\<lparr>create := \<lambda>p. Inr (JStr ''MODEL'')\<rparr>)
           (post (decline_text ''sustainability'') True)"
  using no_credential_deterministic
    [of no_credential "no_credential\<lparr>create := \<lambda>p. Inr (JStr ''MODEL'')\<rparr>"
        "post analyze_text False"]
    no_credential_deterministic
    [of no_credential "no_credential\<lparr>create := \<lambda>p. Inr (JStr ''MODEL'')\<rparr>"
        "post (decline_text ''sustainability'') True"]
  by (simp add: no_credential_def)

subsection \<open>The generate step of the wizard\<close>

text \<open>The analysis step does request the analyze endpoint.\<close>

lemma handleFileUploaded_fetches:
  "fetched (handleFileUploaded outcome s (Some file)) = fetched s @ [ANALYZE_URL]"
  by (simp add: handleFileUploaded_def Let_def split: sum.splits)

text \<open>
  When the request of the analysis step is rejected, the wizard builds the summary by
  its own extraction from the text: the name after \<open>Organization:\<close>, the first dollar
  amount, and the beginning of the text.
\<close>

lemma test_org_name: "extractOrganizationName test_org_text = Some ''Test Org''"
  by (simp add: extractOrganizationName_def test_org_text_def trim_def is_space_def)

lemma test_org_amount: "extractGrantAmount test_org_text = Some ''$50,000''"
  by (simp add: test_org_text_def amount_char_def is_digit_def cents_def)

lemma wizard_basic_extraction:
  "basicSummary test_org_file =
     JObj [(''organizationName'', JStr ''Test Org''),
           (''grantAmount'', JStr ''$50,000''),
           (''projectDescription'', JStr test_org_text),
           (''targetPopulation'', JStr ''See proposal details''),
           (''geographicScope'', JStr ''See proposal details'')]"
proof -
  have "take 300 test_org_text = test_org_text" and "test_org_text \<noteq> []"
    by (simp_all add: test_org_text_def)
  then show ?thesis
    by (simp add: basicSummary_def test_org_file_def test_org_name test_org_amount str_or_def)
qed

lemma wizard_fallback_on_rejection:
  "proposalSummary (handleFileUploaded FetchRejected s (Some test_org_file))
     = Some (basicSummary test_org_file)"
  by (simp add: handleFileUploaded_def analysis_result_def Let_def)



end
